theory Spec2Isabelle
  imports Main "HOL-Library.Multiset"
begin

section \<open>The fragment of JavaScript values the tracker computes with\<close>

text \<open>
  The scoring code reads two object literals by a string key, defaults a falsy read to
  \<open>0\<close> with \<open>||\<close>, adds the results with \<open>+\<close> and clamps with \<open>Math.min\<close> and
  \<open>Math.max\<close>. A read \<open>obj[key]\<close> of an object literal finds the literal's own
  properties first and then the properties every object inherits from
  \<open>Object.prototype\<close> (\<open>constructor\<close>, \<open>toString\<close>, ...); these are functions,
  or for \<open>__proto__\<close> the prototype object itself. Such a value is truthy, and \<open>+\<close>
  with it concatenates strings. \<open>JText\<close> stands for a string obtained that way: it
  contains the text \<open>function\<close> or \<open>[object Object]\<close>, so it is never empty and never
  a numeric literal. All numbers that occur are integers.
\<close>

datatype jsval = JUndefined | JNull | JNumber int | JNaN | JText | JObject

definition Object_prototype :: "string list" where
  "Object_prototype =
     [''constructor'', ''__defineGetter__'', ''__defineSetter__'', ''hasOwnProperty'',
      ''__lookupGetter__'', ''__lookupSetter__'', ''isPrototypeOf'',
      ''propertyIsEnumerable'', ''toString'', ''valueOf'', ''__proto__'',
      ''toLocaleString'']"

text \<open>\<open>obj[key]\<close> for an object literal whose own properties are numbers.\<close>

definition getProp :: "(string \<times> int) list \<Rightarrow> string \<Rightarrow> jsval" where
  "getProp obj key =
     (case map_of obj key of
        Some n \<Rightarrow> JNumber n
      | None \<Rightarrow> if key \<in> set Object_prototype then JObject else JUndefined)"

fun ToBoolean :: "jsval \<Rightarrow> bool" where
  "ToBoolean JUndefined = False"
| "ToBoolean JNull = False"
| "ToBoolean (JNumber n) = (n \<noteq> 0)"
| "ToBoolean JNaN = False"
| "ToBoolean JText = True"
| "ToBoolean JObject = True"

text \<open>\<open>a || b\<close>\<close>

definition js_or :: "jsval \<Rightarrow> jsval \<Rightarrow> jsval" where
  "js_or a b = (if ToBoolean a then a else b)"

text \<open>\<open>ToNumber\<close>, with \<open>None\<close> for \<open>NaN\<close>.\<close>

fun ToNumber :: "jsval \<Rightarrow> int option" where
  "ToNumber JUndefined = None"
| "ToNumber JNull = Some 0"
| "ToNumber (JNumber n) = Some n"
| "ToNumber JNaN = None"
| "ToNumber JText = None"
| "ToNumber JObject = None"

fun concatenates :: "jsval \<Rightarrow> bool" where
  "concatenates JText = True"
| "concatenates JObject = True"
| "concatenates _ = False"

text \<open>\<open>a + b\<close>: string concatenation as soon as one side is a string or an object.\<close>

definition js_add :: "jsval \<Rightarrow> jsval \<Rightarrow> jsval" where
  "js_add a b =
     (if concatenates a \<or> concatenates b then JText
      else case (ToNumber a, ToNumber b) of
             (Some x, Some y) \<Rightarrow> JNumber (x + y)
           | _ \<Rightarrow> JNaN)"

definition Math_max :: "jsval \<Rightarrow> jsval \<Rightarrow> jsval" where
  "Math_max a b =
     (case (ToNumber a, ToNumber b) of
        (Some x, Some y) \<Rightarrow> JNumber (max x y)
      | _ \<Rightarrow> JNaN)"

definition Math_min :: "jsval \<Rightarrow> jsval \<Rightarrow> jsval" where
  "Math_min a b =
     (case (ToNumber a, ToNumber b) of
        (Some x, Some y) \<Rightarrow> JNumber (min x y)
      | _ \<Rightarrow> JNaN)"

text \<open>\<open>a >= b\<close> and \<open>a === b\<close> against a number literal.\<close>

definition js_ge :: "jsval \<Rightarrow> int \<Rightarrow> bool" where
  "js_ge a n = (case ToNumber a of Some x \<Rightarrow> n \<le> x | None \<Rightarrow> False)"

definition js_strict_eq :: "jsval \<Rightarrow> int \<Rightarrow> bool" where
  "js_strict_eq a n = (a = JNumber n)"

section \<open>Scoring engine (app.js)\<close>

text \<open>The \<open>SCORING\<close> and \<open>COLOR_MAPPING\<close> tables.\<close>

definition SCORING_status :: "(string \<times> int) list" where
  "SCORING_status =
     [(''passed'', 10), (''failed'', 0), (''other-important-work'', 10),
      (''intentionally-declined'', 10)]"

definition SCORING_productivity :: "(string \<times> int) list" where
  "SCORING_productivity =
     [(''highly-productive'', 10), (''productive'', 8), (''average'', 6),
      (''below-average'', 4), (''least-productive'', 2)]"

definition COLOR_MAPPING :: "int \<Rightarrow> string" where
  "COLOR_MAPPING k =
     (if k = 80 then ''#0c6111ff''
      else if k = 60 then ''#349e39ff''
      else if k = 40 then ''#3cd841ff''
      else if k = 20 then ''#65cd68ff''
      else ''#E8F5E8'')"

text \<open>
  A phase input as \<open>collectPhaseData\<close> builds it, \<open>{phase, status, productivity}\<close>, and a
  stored phase, \<open>{status, productivity, timestamp, locked}\<close>. Both carry the two fields
  the scoring functions read; an unselected dropdown gives the empty string.
\<close>

record phaseFields =
  status :: string
  productivity :: string

record phaseInput = phaseFields +
  phase :: nat

record phaseRecord = phaseFields +
  timestamp :: string
  locked :: bool

text \<open>The body of the \<open>forEach\<close> in \<open>calculateProductivityScore\<close>.\<close>

definition addPhaseScore :: "jsval \<Rightarrow> 'a phaseFields_scheme \<Rightarrow> jsval" where
  "addPhaseScore totalScore p =
     (if status p \<noteq> [] then
        (let statusScore = js_or (getProp SCORING_status (status p)) (JNumber 0) in
         if status p = ''failed'' then js_add totalScore (JNumber 0)
         else
           (let productivityScore =
                  (if productivity p \<noteq> []
                   then js_or (getProp SCORING_productivity (productivity p)) (JNumber 0)
                   else JNumber 0)
            in js_add totalScore (js_add statusScore productivityScore)))
      else totalScore)"

definition calculateProductivityScore :: "'a phaseFields_scheme list \<Rightarrow> jsval" where
  "calculateProductivityScore phaseData =
     (let totalScore = foldl addPhaseScore (JNumber 0) phaseData
      in Math_min (JNumber 100) (Math_max (JNumber 0) totalScore))"

text \<open>
  The body of the \<open>forEach\<close> in \<open>calculateScoreFromPhaseObjects\<close>: the same, except
  that the productivity table is read without testing the key for emptiness first.
\<close>

definition addPhaseObjectScore :: "jsval \<Rightarrow> 'a phaseFields_scheme \<Rightarrow> jsval" where
  "addPhaseObjectScore totalScore p =
     (if status p \<noteq> [] then
        (let statusScore = js_or (getProp SCORING_status (status p)) (JNumber 0) in
         if status p = ''failed'' then js_add totalScore (JNumber 0)
         else
           (let productivityScore =
                  js_or (getProp SCORING_productivity (productivity p)) (JNumber 0)
            in js_add totalScore (js_add statusScore productivityScore)))
      else totalScore)"

definition calculateScoreFromPhaseObjects :: "'a phaseFields_scheme list \<Rightarrow> jsval" where
  "calculateScoreFromPhaseObjects phases =
     (let totalScore = foldl addPhaseObjectScore (JNumber 0) phases
      in Math_min (JNumber 100) (Math_max (JNumber 0) totalScore))"

definition getColorForScore :: "jsval \<Rightarrow> string" where
  "getColorForScore score =
     (if js_strict_eq score 0 then ''#f0f0f0''
      else if js_ge score 81 then COLOR_MAPPING 80
      else if js_ge score 61 then COLOR_MAPPING 60
      else if js_ge score 41 then COLOR_MAPPING 40
      else if js_ge score 21 then COLOR_MAPPING 20
      else COLOR_MAPPING 0)"

text \<open>\<open>validateAllPhases\<close>: \<open>phaseData.some(phase => phase.status)\<close>.\<close>

definition validateAllPhases :: "'a phaseFields_scheme list \<Rightarrow> bool" where
  "validateAllPhases phaseData = list_ex (\<lambda>p. status p \<noteq> []) phaseData"

section \<open>Persistence facade (firebase-config.js)\<close>

text \<open>
  A stored day: the document \<open>saveDailyData\<close> and \<open>saveToLocalStorage\<close> build. The
  \<open>phases\<close> property is present only when the caller supplied a phases object, and
  \<open>doc_id\<close> is the \<open>id\<close> property that \<open>fetchAllData\<close> adds to a document read from
  Firestore. A phases object is an association list in property order; its key \<open>i\<close>
  stands for the property name \<open>phase\<close> followed by \<open>i\<close>. The first three fields are
  the ones the default object of \<open>getTodayData\<close> has as well.
\<close>

record todayData =
  phases :: "(nat \<times> phaseRecord) list option"
  score :: jsval
  color :: string

record dayRecord = todayData +
  date :: string
  weekday :: string
  day_timestamp :: string
  doc_id :: "string option"

datatype error = SyntaxError | QuotaExceededError | FirestoreError

text \<open>
  The \<open>productivityData\<close> item of \<open>localStorage\<close>: absent, a text from which
  \<open>JSON.parse\<close> gives no object (it throws, or the assignment to the parsed value
  does), or the serialisation of an object from date to stored day.
\<close>

datatype storedItem = NoItem | Malformed | ObjectText "(string \<times> dayRecord) list"

datatype facadeCall = SaveDailyData string | FetchAllData

datatype message = SelectStatus | PhaseSaved jsval | GenerateError | LoadError

text \<open>
  The state the two modules work on: whether \<open>db\<close> was initialised, the Firestore
  collection \<open>users/defaultUser/consistency\<close> keyed by document id, the local item, and
  the module variable \<open>heatmapData\<close>. \<open>firestoreFails\<close> and \<open>setItemFails\<close> say
  whether a call to Firestore rejects and whether \<open>localStorage.setItem\<close> throws;
  \<open>shownMessage\<close> is the text \<open>showMessage\<close> displayed last. \<open>facadeCalls\<close> is not
  program state: it records every entry into \<open>saveDailyData\<close> and \<open>fetchAllData\<close>,
  latest first.
\<close>

record world =
  db :: bool
  firestoreFails :: bool
  consistency :: "(string \<times> dayRecord) list"
  productivityData :: storedItem
  setItemFails :: bool
  heatmapData :: "dayRecord list"
  shownMessage :: "message option"
  facadeCalls :: "facadeCall list"

text \<open>
  \<open>obj[key] = value\<close> on an object whose keys are not array indices: an existing
  property keeps its place, a new one goes last.
\<close>

fun setProp :: "'k \<Rightarrow> 'v \<Rightarrow> ('k \<times> 'v) list \<Rightarrow> ('k \<times> 'v) list" where
  "setProp key v [] = [(key, v)]"
| "setProp key v ((k, x) # rest) =
     (if k = key then (k, v) # rest else (k, x) # setProp key v rest)"

text \<open>
  Descending order of dates. The dates the application writes have the form
  \<open>YYYY-MM-DD\<close>, on which the order of \<open>new Date(b.date) - new Date(a.date)\<close> and of
  Firestore's \<open>orderBy('date', 'desc')\<close> is the descending order of the strings.
\<close>

fun string_less :: "string \<Rightarrow> string \<Rightarrow> bool" where
  "string_less [] [] = False"
| "string_less [] (y # ys) = True"
| "string_less (x # xs) [] = False"
| "string_less (x # xs) (y # ys) =
     ((of_char x :: nat) < of_char y \<or> (x = y \<and> string_less xs ys))"

fun insertDescending :: "dayRecord \<Rightarrow> dayRecord list \<Rightarrow> dayRecord list" where
  "insertDescending a [] = [a]"
| "insertDescending a (b # rest) =
     (if string_less (date a) (date b) then b # insertDescending a rest else a # b # rest)"

definition sortByDateDescending :: "dayRecord list \<Rightarrow> dayRecord list" where
  "sortByDateDescending dataArray = foldr insertDescending dataArray []"

text \<open>\<open>JSON.parse(localStorage.getItem('productivityData') || '{}')\<close>\<close>

definition parseProductivityData :: "world \<Rightarrow> error + (string \<times> dayRecord) list" where
  "parseProductivityData w =
     (case productivityData w of
        NoItem \<Rightarrow> Inr []
      | Malformed \<Rightarrow> Inl SyntaxError
      | ObjectText existingData \<Rightarrow> Inr existingData)"

text \<open>
  \<open>JSON.stringify\<close> writes \<open>NaN\<close> as \<open>null\<close>; the other scores the application
  computes are integers and are read back as they were written.
\<close>

definition stringifyScore :: "jsval \<Rightarrow> jsval" where
  "stringifyScore v = (case v of JNaN \<Rightarrow> JNull | _ \<Rightarrow> v)"

definition stringifyData :: "(string \<times> dayRecord) list \<Rightarrow> storedItem" where
  "stringifyData existingData =
     ObjectText (map (\<lambda>(k, d). (k, d\<lparr>score := stringifyScore (score d)\<rparr>)) existingData)"

text \<open>\<open>localStorage.setItem('productivityData', JSON.stringify(existingData))\<close>\<close>

definition setItem :: "world \<Rightarrow> (string \<times> dayRecord) list \<Rightarrow> error + world" where
  "setItem w existingData =
     (if setItemFails w then Inl QuotaExceededError
      else Inr (w\<lparr>productivityData := stringifyData existingData\<rparr>))"

text \<open>
  The object both writers build; \<open>if (phases)\<close> holds for every object, also the
  empty one, and fails for the default \<open>null\<close>.
\<close>

definition dataEntry ::
  "string \<Rightarrow> string \<Rightarrow> jsval \<Rightarrow> string \<Rightarrow> (nat \<times> phaseRecord) list option \<Rightarrow> string
     \<Rightarrow> dayRecord" where
  "dataEntry d wd sc col phs now =
     \<lparr>phases = phs, score = sc, color = col, date = d, weekday = wd, day_timestamp = now,
      doc_id = None\<rparr>"

text \<open>
  A function that can throw returns \<open>Inl\<close> of the error; \<open>now\<close> is the reading of
  the clock (\<open>new Date()\<close>) during the call.
\<close>

definition saveToLocalStorage ::
  "world \<Rightarrow> string \<Rightarrow> string \<Rightarrow> jsval \<Rightarrow> string \<Rightarrow> (nat \<times> phaseRecord) list option
     \<Rightarrow> string \<Rightarrow> (error + bool) \<times> world" where
  "saveToLocalStorage w d wd sc col phs now =
     (case parseProductivityData w of
        Inl e \<Rightarrow> (Inr False, w)
      | Inr existingData \<Rightarrow>
          (case setItem w (setProp d (dataEntry d wd sc col phs now) existingData) of
             Inl e \<Rightarrow> (Inr False, w)
           | Inr w' \<Rightarrow> (Inr True, w')))"

text \<open>\<open>await setDoc(docRef, data)\<close>: the document with id \<open>date\<close> is replaced.\<close>

definition setDoc :: "world \<Rightarrow> string \<Rightarrow> dayRecord \<Rightarrow> error + world" where
  "setDoc w d data =
     (if firestoreFails w then Inl FirestoreError
      else Inr (w\<lparr>consistency := setProp d data (consistency w)\<rparr>))"

definition saveDailyData ::
  "world \<Rightarrow> string \<Rightarrow> string \<Rightarrow> jsval \<Rightarrow> string \<Rightarrow> (nat \<times> phaseRecord) list option
     \<Rightarrow> string \<Rightarrow> (error + bool) \<times> world" where
  "saveDailyData w0 d wd sc col phs now =
     (let w = w0\<lparr>facadeCalls := SaveDailyData d # facadeCalls w0\<rparr>;
          tried =
            (if \<not> db w then saveToLocalStorage w d wd sc col phs now
             else case setDoc w d (dataEntry d wd sc col phs now) of
                    Inl e \<Rightarrow> (Inl e, w)
                  | Inr w' \<Rightarrow> (Inr True, w'))
      in case fst tried of
           Inl e \<Rightarrow> saveToLocalStorage (snd tried) d wd sc col None now
         | Inr b \<Rightarrow> tried)"

definition fetchFromLocalStorage :: "world \<Rightarrow> error + dayRecord list" where
  "fetchFromLocalStorage w =
     (case parseProductivityData w of
        Inl e \<Rightarrow> Inr []
      | Inr data \<Rightarrow> Inr (sortByDateDescending (map snd data)))"

text \<open>\<open>await getDocs(q)\<close> and the loop over the snapshot.\<close>

definition getDocs :: "world \<Rightarrow> error + dayRecord list" where
  "getDocs w =
     (if firestoreFails w then Inl FirestoreError
      else Inr (sortByDateDescending
                  (map (\<lambda>(k, d). d\<lparr>doc_id := Some k\<rparr>) (consistency w))))"

definition fetchAllData :: "world \<Rightarrow> (error + dayRecord list) \<times> world" where
  "fetchAllData w0 =
     (let w = w0\<lparr>facadeCalls := FetchAllData # facadeCalls w0\<rparr>;
          tried = (if \<not> db w then fetchFromLocalStorage w else getDocs w)
      in case tried of
           Inl e \<Rightarrow> (fetchFromLocalStorage w, w)
         | Inr data \<Rightarrow> (Inr data, w))"

section \<open>Day-record aggregator and the generate action (app.js)\<close>

definition emptyToday :: todayData where
  "emptyToday = \<lparr>phases = Some [], score = JNumber 0, color = ''#f0f0f0''\<rparr>"

text \<open>
  \<open>getTodayData\<close> returns the stored day or the default object; its callers read
  \<open>phases\<close> and \<open>score\<close> only.
\<close>

definition getTodayData :: "world \<Rightarrow> string \<Rightarrow> (error + todayData) \<times> world" where
  "getTodayData w d =
     (case fetchAllData w of
        (Inl e, w') \<Rightarrow> (Inr emptyToday, w')
      | (Inr allData, w') \<Rightarrow>
          (case find (\<lambda>item. date item = d) allData of
             Some item \<Rightarrow> (Inr (todayData.truncate item), w')
           | None \<Rightarrow> (Inr emptyToday, w')))"

text \<open>
  The \<open>forEach\<close> of \<open>savePhaseData\<close> that merges the submitted phases. The stored
  \<open>phase.productivity || ''\<close> is the productivity string itself.
\<close>

definition mergePhase ::
  "string \<Rightarrow> (nat \<times> phaseRecord) list \<Rightarrow> phaseInput \<Rightarrow> (nat \<times> phaseRecord) list" where
  "mergePhase now updatedPhases p =
     (if status p \<noteq> [] then
        setProp (phase p)
          \<lparr>status = status p, productivity = productivity p, timestamp = now, locked = True\<rparr>
          updatedPhases
      else updatedPhases)"

definition savePhaseData ::
  "world \<Rightarrow> string \<Rightarrow> string \<Rightarrow> phaseInput list \<Rightarrow> string \<Rightarrow> (error + bool) \<times> world" where
  "savePhaseData w d wd phaseData now =
     (case getTodayData w d of
        (Inl e, w1) \<Rightarrow> (Inr False, w1)
      | (Inr existingData, w1) \<Rightarrow>
          (let updatedPhases =
                 foldl (mergePhase now)
                   (case phases existingData of None \<Rightarrow> [] | Some ps \<Rightarrow> ps) phaseData;
               allPhases = map snd updatedPhases;
               totalScore = calculateScoreFromPhaseObjects allPhases;
               col = getColorForScore totalScore
           in case saveDailyData w1 d wd totalScore col (Some updatedPhases) now of
                (Inl e, w2) \<Rightarrow> (Inr False, w2)
              | (Inr success, w2) \<Rightarrow> (Inr success, w2)))"

text \<open>
  \<open>lockSavedPhases\<close> reads today's data and disables the dropdowns of the locked
  phases; of this only the read concerns the state.
\<close>

definition lockSavedPhases :: "world \<Rightarrow> string \<Rightarrow> world" where
  "lockSavedPhases w d = snd (getTodayData w d)"

definition updateHeatmapColor ::
  "world \<Rightarrow> string \<Rightarrow> string \<Rightarrow> jsval \<Rightarrow> string \<Rightarrow> string \<Rightarrow> world" where
  "updateHeatmapColor w d wd sc col now = snd (saveDailyData w d wd sc col None now)"

definition loadHeatmapData :: "world \<Rightarrow> world" where
  "loadHeatmapData w =
     (case fetchAllData w of
        (Inl e, w') \<Rightarrow> w'\<lparr>shownMessage := Some LoadError\<rparr>
      | (Inr data, w') \<Rightarrow> w'\<lparr>heatmapData := data\<rparr>)"

text \<open>
  \<open>handleGenerateClick\<close>, with the result of \<open>collectPhaseData\<close> and the date and
  weekday of \<open>new Date()\<close> as arguments.
\<close>

definition handleGenerateClick ::
  "world \<Rightarrow> phaseInput list \<Rightarrow> string \<Rightarrow> string \<Rightarrow> string \<Rightarrow> world" where
  "handleGenerateClick w phaseData d wd now =
     (if \<not> validateAllPhases phaseData then w\<lparr>shownMessage := Some SelectStatus\<rparr>
      else
        case savePhaseData w d wd phaseData now of
          (Inl e, w1) \<Rightarrow> w1\<lparr>shownMessage := Some GenerateError\<rparr>
        | (Inr success, w1) \<Rightarrow>
            (let sc = calculateProductivityScore phaseData;
                 col = getColorForScore sc
             in if success then
                  (let w2 = w1\<lparr>shownMessage := Some (PhaseSaved sc)\<rparr>;
                       w3 = lockSavedPhases w2 d;
                       w4 = updateHeatmapColor w3 d wd sc col now
                   in loadHeatmapData w4)
                else w1\<lparr>shownMessage := Some GenerateError\<rparr>))"

section \<open>Auxiliary notions for the statements\<close>

text \<open>The points a table gives a key of its own, and \<open>0\<close> for any other key.\<close>

definition points :: "(string \<times> int) list \<Rightarrow> string \<Rightarrow> int" where
  "points tbl key = (case map_of tbl key of Some n \<Rightarrow> n | None \<Rightarrow> 0)"

text \<open>
  A phase that is scored (status neither empty nor \<open>failed\<close>) and whose status or
  productivity names a property the tables inherit instead of one of their own.
\<close>

definition readsInherited :: "'a phaseFields_scheme \<Rightarrow> bool" where
  "readsInherited p =
     (status p \<noteq> [] \<and> status p \<noteq> ''failed'' \<and>
      (getProp SCORING_status (status p) = JObject \<or>
       getProp SCORING_productivity (productivity p) = JObject))"

definition phasePoints :: "'a phaseFields_scheme \<Rightarrow> int" where
  "phasePoints p =
     (if status p = [] \<or> status p = ''failed'' then 0
      else points SCORING_status (status p) + points SCORING_productivity (productivity p))"

text \<open>The phases of a stored day as the scoring function receives them.\<close>

definition storedPhases :: "'a todayData_scheme \<Rightarrow> phaseRecord list" where
  "storedPhases r = (case phases r of None \<Rightarrow> [] | Some ps \<Rightarrow> map snd ps)"

text \<open>Concrete inputs: a state with nothing stored, and the submissions of the examples.\<close>

definition emptyWorld :: "bool \<Rightarrow> bool \<Rightarrow> world" where
  "emptyWorld hasDb fails =
     \<lparr>db = hasDb, firestoreFails = fails, consistency = [], productivityData = NoItem,
      setItemFails = False, heatmapData = [], shownMessage = None, facadeCalls = []\<rparr>"

definition phase1 :: phaseInput where
  "phase1 = \<lparr>status = ''passed'', productivity = ''highly-productive'', phase = 1\<rparr>"

definition phase2 :: phaseInput where
  "phase2 = \<lparr>status = ''passed'', productivity = ''average'', phase = 2\<rparr>"

definition savedPhase1 :: phaseRecord where
  "savedPhase1 =
     \<lparr>status = ''passed'', productivity = ''highly-productive'', timestamp = ''t1'',
      locked = True\<rparr>"

definition savedPhase2 :: phaseRecord where
  "savedPhase2 =
     \<lparr>status = ''passed'', productivity = ''average'', timestamp = ''t2'', locked = True\<rparr>"

definition noStatus :: "phaseInput list" where
  "noStatus = map (\<lambda>i. \<lparr>status = [], productivity = [], phase = i\<rparr>) [1, 2, 3, 4, 5]"

section \<open>Properties of the scoring engine\<close>

text \<open>
  The running total is a number until a phase reads an inherited property; from then on it
  is a text, and the clamp turns it into \<open>NaN\<close>.
\<close>

lemma getProp_JObject_iff:
  "getProp tbl key = JObject \<longleftrightarrow> map_of tbl key = None \<and> key \<in> set Object_prototype"
  by (simp add: getProp_def split: option.splits)

lemma js_or_getProp:
  "js_or (getProp tbl key) (JNumber 0) =
     (if getProp tbl key = JObject then JObject else JNumber (points tbl key))"
  by (simp add: js_or_def getProp_def points_def split: option.splits)

lemma getProp_empty: "getProp SCORING_productivity [] = JUndefined"
  by (simp add: getProp_def SCORING_productivity_def Object_prototype_def)

lemma points_empty: "points SCORING_productivity [] = 0"
  by (simp add: points_def SCORING_productivity_def)

lemma addPhaseScore_JNumber:
  "addPhaseScore (JNumber n) p =
     (if readsInherited p then JText else JNumber (n + phasePoints p))"
  by (simp add: addPhaseScore_def readsInherited_def phasePoints_def js_or_getProp js_add_def
      getProp_empty points_empty Let_def)

lemma addPhaseScore_JText: "addPhaseScore JText p = JText"
  by (simp add: addPhaseScore_def js_add_def Let_def)

lemma addPhaseObjectScore_eq: "addPhaseObjectScore t p = addPhaseScore t p"
  by (simp add: addPhaseObjectScore_def addPhaseScore_def Let_def js_or_def getProp_empty)

lemma foldl_addPhaseScore_JText: "foldl addPhaseScore JText ps = JText"
  by (induction ps) (simp_all add: addPhaseScore_JText)

lemma foldl_addPhaseScore_JNumber:
  "foldl addPhaseScore (JNumber n) ps =
     (if \<exists>p \<in> set ps. readsInherited p then JText
      else JNumber (n + sum_list (map phasePoints ps)))"
  by (induction ps arbitrary: n)
     (simp_all add: addPhaseScore_JNumber foldl_addPhaseScore_JText add.assoc)

lemma calculateProductivityScore_eq:
  "calculateProductivityScore ps =
     (if \<exists>p \<in> set ps. readsInherited p then JNaN
      else JNumber (min 100 (max 0 (sum_list (map phasePoints ps)))))"
  by (simp add: calculateProductivityScore_def foldl_addPhaseScore_JNumber Math_min_def Math_max_def)

lemma calculateScoreFromPhaseObjects_eq:
  "calculateScoreFromPhaseObjects ps = calculateProductivityScore ps"
proof -
  have "addPhaseObjectScore = (addPhaseScore :: jsval \<Rightarrow> 'a phaseFields_scheme \<Rightarrow> jsval)"
    by (intro ext) (rule addPhaseObjectScore_eq)
  then show ?thesis
    by (simp add: calculateScoreFromPhaseObjects_def calculateProductivityScore_def)
qed

lemma points_status_range: "0 \<le> points SCORING_status key \<and> points SCORING_status key \<le> 10"
  by (simp add: points_def SCORING_status_def)

lemma points_productivity_range:
  "0 \<le> points SCORING_productivity key \<and> points SCORING_productivity key \<le> 10"
  by (simp add: points_def SCORING_productivity_def)

lemma phasePoints_range: "0 \<le> phasePoints p \<and> phasePoints p \<le> 20"
  using points_status_range [of "status p"] points_productivity_range [of "productivity p"]
  by (simp add: phasePoints_def)

lemma sum_phasePoints_range:
  "0 \<le> sum_list (map phasePoints ps) \<and> sum_list (map phasePoints ps) \<le> 20 * int (length ps)"
proof (induction ps)
  case Nil
  show ?case by simp
next
  case (Cons p ps)
  with phasePoints_range [of p] show ?case by simp
qed

text \<open>
  When no phase reads an inherited property, at most five phases sum to a number between
  0 and 100 before the clamp, which then changes nothing.
\<close>

lemma score_range_own_keys:
  assumes "length ps \<le> 5" and "\<forall>p \<in> set ps. \<not> readsInherited p"
  shows "\<exists>n. foldl addPhaseScore (JNumber 0) ps = JNumber n \<and> 0 \<le> n \<and> n \<le> 100 \<and>
             calculateProductivityScore ps = JNumber n"
proof -
  have "sum_list (map phasePoints ps) \<le> 100" "0 \<le> sum_list (map phasePoints ps)"
    using sum_phasePoints_range [of ps] assms(1) by auto
  with assms(2) show ?thesis
    by (simp add: foldl_addPhaseScore_JNumber calculateProductivityScore_eq)
qed

lemma failed_not_inherited: "status p = ''failed'' \<Longrightarrow> \<not> readsInherited p \<and> phasePoints p = 0"
  by (simp add: readsInherited_def phasePoints_def)

lemma unknown_status_points:
  "status p \<notin> {''passed'', ''failed'', ''other-important-work'', ''intentionally-declined''}
   \<Longrightarrow> map_of SCORING_status (status p) = None"
  by (simp add: SCORING_status_def)

text \<open>
  C4. The claim that a phase whose status is empty or unknown contributes 0 and is left
  out of the scoring fails for an unknown status: the status \<open>skipped\<close> with
  productivity \<open>highly-productive\<close> adds 10 to the score, in both scoring functions.
\<close>

theorem unknown_status_counterexample:
  "calculateProductivityScore
     [\<lparr>status = ''skipped'', productivity = ''highly-productive'', phase = 1\<rparr>] = JNumber 10 \<and>
   calculateScoreFromPhaseObjects
     [\<lparr>status = ''skipped'', productivity = ''highly-productive'', timestamp = ''t'',
       locked = True\<rparr>] = JNumber 10 \<and>
   calculateProductivityScore ([] :: phaseInput list) = JNumber 0"
  by code_simp

text \<open>
  C4, as amended. A phase whose status is empty leaves the running total as it is,
  whatever its productivity, and the score of a collection does not change when such a
  phase is removed. A phase whose status is not empty and not one of the four known
  values gets no status points, and the points of its productivity value are still added
  (where neither string names an inherited property).
\<close>

theorem empty_or_unknown_status_contribution:
  "(status p = [] \<longrightarrow>
      addPhaseScore t p = t \<and> addPhaseObjectScore t p = t \<and>
      calculateProductivityScore (xs @ p # ys) = calculateProductivityScore (xs @ ys) \<and>
      calculateScoreFromPhaseObjects (xs @ p # ys) = calculateScoreFromPhaseObjects (xs @ ys)) \<and>
   (status p \<noteq> [] \<and>
    status p \<notin> {''passed'', ''failed'', ''other-important-work'', ''intentionally-declined''} \<and>
    status p \<notin> set Object_prototype \<and> productivity p \<notin> set Object_prototype \<longrightarrow>
      addPhaseScore (JNumber n) p = JNumber (n + points SCORING_productivity (productivity p)) \<and>
      addPhaseObjectScore (JNumber n) p =
        JNumber (n + points SCORING_productivity (productivity p)))"
proof (intro conjI impI)
  assume e: "status p = []"
  then show "addPhaseScore t p = t"
    by (simp add: addPhaseScore_def)
  from e show "addPhaseObjectScore t p = t"
    by (simp add: addPhaseObjectScore_def)
  from e have skip: "\<And>u. addPhaseScore u p = u"
    by (simp add: addPhaseScore_def)
  show "calculateProductivityScore (xs @ p # ys) = calculateProductivityScore (xs @ ys)"
    by (simp add: calculateProductivityScore_def skip)
  then show "calculateScoreFromPhaseObjects (xs @ p # ys) = calculateScoreFromPhaseObjects (xs @ ys)"
    by (simp add: calculateScoreFromPhaseObjects_eq)
next
  assume u: "status p \<noteq> [] \<and>
    status p \<notin> {''passed'', ''failed'', ''other-important-work'', ''intentionally-declined''} \<and>
    status p \<notin> set Object_prototype \<and> productivity p \<notin> set Object_prototype"
  then have none: "map_of SCORING_status (status p) = None"
    by (simp add: unknown_status_points)
  from u none have "\<not> readsInherited p"
    by (simp add: readsInherited_def getProp_JObject_iff)
  moreover from u none have "phasePoints p = points SCORING_productivity (productivity p)"
    by (simp add: phasePoints_def points_def)
  ultimately show
    "addPhaseScore (JNumber n) p = JNumber (n + points SCORING_productivity (productivity p))"
    by (simp add: addPhaseScore_JNumber)
  then show "addPhaseObjectScore (JNumber n) p =
        JNumber (n + points SCORING_productivity (productivity p))"
    by (simp add: addPhaseObjectScore_eq)
qed

theorem empty_or_unknown_status_contribution_witness:
  "addPhaseScore (JNumber 16)
     \<lparr>status = [], productivity = ''highly-productive'', phase = 1\<rparr> = JNumber 16 \<and>
   addPhaseScore (JNumber 16)
     \<lparr>status = ''skipped'', productivity = ''highly-productive'', phase = 1\<rparr> = JNumber 26"
  using empty_or_unknown_status_contribution
      [of "\<lparr>status = [], productivity = ''highly-productive'', phase = 1\<rparr>" "JNumber 16"]
    empty_or_unknown_status_contribution
      [of "\<lparr>status = ''skipped'', productivity = ''highly-productive'', phase = 1\<rparr>" _ _ _ 16]
  by (simp add: Object_prototype_def points_def SCORING_productivity_def)

text \<open>
  C7. A phase whose status is \<open>failed\<close> adds 0 to a numeric running total whatever
  its productivity, in both scoring functions, and the score of a collection does not
  change when such a phase is removed; the witness is the phase
  \<open>{status: 'failed', productivity: 'highly-productive'}\<close>, which scores 0.
\<close>

theorem failed_phase_contributes_zero:
  assumes "status p = ''failed''"
  shows "addPhaseScore (JNumber n) p = JNumber n \<and>
         addPhaseObjectScore (JNumber n) p = JNumber n \<and>
         calculateProductivityScore (xs @ p # ys) = calculateProductivityScore (xs @ ys) \<and>
         calculateScoreFromPhaseObjects (xs @ p # ys) = calculateScoreFromPhaseObjects (xs @ ys)"
proof -
  from assms have p: "\<not> readsInherited p" "phasePoints p = 0"
    by (simp_all add: failed_not_inherited)
  then have step: "addPhaseScore (JNumber n) p = JNumber n"
    by (simp add: addPhaseScore_JNumber)
  have "set (xs @ p # ys) = insert p (set (xs @ ys))"
    by simp
  with p have whole: "calculateProductivityScore (xs @ p # ys) = calculateProductivityScore (xs @ ys)"
    by (simp add: calculateProductivityScore_eq)
  from step whole show ?thesis
    by (simp add: addPhaseObjectScore_eq calculateScoreFromPhaseObjects_eq)
qed

theorem failed_phase_contributes_zero_witness:
  "calculateProductivityScore
     [\<lparr>status = ''failed'', productivity = ''highly-productive'', phase = 1\<rparr>] = JNumber 0"
proof -
  have "calculateProductivityScore ([] @ \<lparr>status = ''failed'', productivity = ''highly-productive'', phase = 1\<rparr> # [])
        = calculateProductivityScore ([] :: phaseInput list)"
    using failed_phase_contributes_zero
      [of "\<lparr>status = ''failed'', productivity = ''highly-productive'', phase = 1\<rparr>" 0 "[]" "[]"]
    by simp
  then show ?thesis
    by (simp add: calculateProductivityScore_eq)
qed

text \<open>
  C8. The score of at most five phases is claimed to lie between 0 and 100 for any status
  and productivity strings. For the status \<open>constructor\<close> the table read finds the
  inherited constructor function, the running total becomes a text, and both scoring
  functions return \<open>NaN\<close>. (\<open>score_range_own_keys\<close> above is the bound that holds
  when no inherited property is read.)
\<close>

theorem inherited_status_scores_NaN:
  "foldl addPhaseScore (JNumber 0)
     [\<lparr>status = ''constructor'', productivity = [], phase = 1\<rparr>] = JText \<and>
   calculateProductivityScore
     [\<lparr>status = ''constructor'', productivity = [], phase = 1\<rparr>] = JNaN \<and>
   calculateScoreFromPhaseObjects
     [\<lparr>status = ''constructor'', productivity = [], timestamp = ''t'', locked = True\<rparr>] = JNaN"
  by code_simp

text \<open>
  C9. The score is the same for every reordering of the phase collection: two lists with
  the same elements, counted with multiplicity, have the same score.
\<close>

theorem calculateProductivityScore_reordering:
  assumes "mset ys = mset xs"
  shows "calculateProductivityScore ys = calculateProductivityScore xs"
proof -
  from assms have same_set: "set ys = set xs"
    by (rule mset_eq_setD)
  from assms have "mset (map phasePoints ys) = mset (map phasePoints xs)"
    by simp
  then have "sum_list (map phasePoints ys) = sum_list (map phasePoints xs)"
    by (metis sum_mset_sum_list)
  with same_set show ?thesis
    by (simp add: calculateProductivityScore_eq)
qed

theorem calculateProductivityScore_reordering_witness:
  "mset [phase2, phase1] = mset [phase1, phase2] \<and>
   calculateProductivityScore [phase2, phase1] = calculateProductivityScore [phase1, phase2]"
proof -
  have h: "mset [phase2, phase1] = mset [phase1, phase2]"
    by (simp add: add_mset_commute)
  show ?thesis
    using h calculateProductivityScore_reordering [OF h] by simp
qed

text \<open>
  C10. On the scores 0 to 100 the colour is the neutral \<open>#f0f0f0\<close> for 0 and one of
  five greens for 1 to 20, 21 to 40, 41 to 60, 61 to 80 and 81 to 100; the six colours are
  pairwise different, so 0, 20 and 21 lie in three different buckets.
\<close>

theorem getColorForScore_buckets:
  assumes "0 \<le> n" and "n \<le> 100"
  shows "getColorForScore (JNumber n) =
           (if n = 0 then ''#f0f0f0''
            else if n \<le> 20 then ''#E8F5E8''
            else if n \<le> 40 then ''#65cd68ff''
            else if n \<le> 60 then ''#3cd841ff''
            else if n \<le> 80 then ''#349e39ff''
            else ''#0c6111ff'')
         \<and> distinct [''#f0f0f0'', ''#E8F5E8'', ''#65cd68ff'', ''#3cd841ff'', ''#349e39ff'',
                      ''#0c6111ff'']"
  by (simp add: getColorForScore_def js_strict_eq_def js_ge_def COLOR_MAPPING_def)

theorem getColorForScore_buckets_witness:
  "getColorForScore (JNumber 0) = ''#f0f0f0'' \<and> getColorForScore (JNumber 20) = ''#E8F5E8'' \<and>
   getColorForScore (JNumber 21) = ''#65cd68ff'' \<and>
   getColorForScore (JNumber 20) \<noteq> getColorForScore (JNumber 21)"
  using getColorForScore_buckets [of 0] getColorForScore_buckets [of 20]
    getColorForScore_buckets [of 21]
  by simp

section \<open>Properties of the persistence facade\<close>

lemma saveToLocalStorage_result:
  "fst (saveToLocalStorage w d wd sc col phs now) =
     Inr (productivityData w \<noteq> Malformed \<and> \<not> setItemFails w)"
  by (simp add: saveToLocalStorage_def parseProductivityData_def setItem_def
      split: storedItem.splits)

lemma map_of_setProp: "map_of (setProp k v xs) k = Some v"
  by (induction xs) auto

lemma saveDailyData_remote:
  assumes "db w" and "\<not> firestoreFails w"
  shows "saveDailyData w d wd sc col phs now =
           (Inr True, w\<lparr>facadeCalls := SaveDailyData d # facadeCalls w,
                         consistency := setProp d (dataEntry d wd sc col phs now) (consistency w)\<rparr>)"
  using assms by (simp add: saveDailyData_def setDoc_def Let_def)

lemma fetchAllData_world: "snd (fetchAllData w) = w\<lparr>facadeCalls := FetchAllData # facadeCalls w\<rparr>"
  by (simp add: fetchAllData_def Let_def split: sum.splits)

text \<open>
  C5. \<open>saveDailyData\<close> never throws: it always resolves to a boolean. The local write
  succeeds exactly when the stored item can be parsed and \<open>setItem\<close> does not throw.
  When Firestore throws, the result is that of the local write (made without the phases);
  and the result is \<open>false\<close> only when the Firestore write did not succeed and the
  local write failed.
\<close>

theorem saveDailyData_resolves_to_boolean:
  "(\<exists>b. fst (saveDailyData w d wd sc col phs now) = Inr b) \<and>
   fst (saveToLocalStorage w d wd sc col phs now) =
     Inr (productivityData w \<noteq> Malformed \<and> \<not> setItemFails w) \<and>
   (db w \<and> firestoreFails w \<longrightarrow>
      saveDailyData w d wd sc col phs now =
        saveToLocalStorage (w\<lparr>facadeCalls := SaveDailyData d # facadeCalls w\<rparr>)
          d wd sc col None now \<and>
      fst (saveDailyData w d wd sc col phs now) =
        Inr (productivityData w \<noteq> Malformed \<and> \<not> setItemFails w)) \<and>
   (fst (saveDailyData w d wd sc col phs now) = Inr False \<longrightarrow>
      \<not> (db w \<and> \<not> firestoreFails w) \<and> (productivityData w = Malformed \<or> setItemFails w))"
  by (auto simp add: saveDailyData_def setDoc_def saveToLocalStorage_result Let_def)

theorem saveDailyData_resolves_to_boolean_witness:
  "fst (saveDailyData (emptyWorld True True) ''2025-01-01'' ''Monday'' (JNumber 20) ''#E8F5E8''
          (Some [(1, savedPhase1)]) ''t1'') = Inr True \<and>
   fst (saveDailyData ((emptyWorld True True)\<lparr>setItemFails := True\<rparr>) ''2025-01-01'' ''Monday''
          (JNumber 20) ''#E8F5E8'' (Some [(1, savedPhase1)]) ''t1'') = Inr False"
proof -
  have throws: "db (emptyWorld True True) \<and> firestoreFails (emptyWorld True True)"
    by (simp add: emptyWorld_def)
  have "fst (saveDailyData (emptyWorld True True) ''2025-01-01'' ''Monday'' (JNumber 20)
          ''#E8F5E8'' (Some [(1, savedPhase1)]) ''t1'') =
        Inr (productivityData (emptyWorld True True) \<noteq> Malformed \<and>
             \<not> setItemFails (emptyWorld True True))"
    using throws saveDailyData_resolves_to_boolean
      [of "emptyWorld True True" "''2025-01-01''" "''Monday''" "JNumber 20" "''#E8F5E8''"
          "Some [(1, savedPhase1)]" "''t1''"]
    by blast
  then have first: "fst (saveDailyData (emptyWorld True True) ''2025-01-01'' ''Monday''
          (JNumber 20) ''#E8F5E8'' (Some [(1, savedPhase1)]) ''t1'') = Inr True"
    by (simp add: emptyWorld_def)
  have throws': "db ((emptyWorld True True)\<lparr>setItemFails := True\<rparr>) \<and>
                 firestoreFails ((emptyWorld True True)\<lparr>setItemFails := True\<rparr>)"
    by (simp add: emptyWorld_def)
  have "fst (saveDailyData ((emptyWorld True True)\<lparr>setItemFails := True\<rparr>) ''2025-01-01''
          ''Monday'' (JNumber 20) ''#E8F5E8'' (Some [(1, savedPhase1)]) ''t1'') =
        Inr (productivityData ((emptyWorld True True)\<lparr>setItemFails := True\<rparr>) \<noteq> Malformed \<and>
             \<not> setItemFails ((emptyWorld True True)\<lparr>setItemFails := True\<rparr>))"
    using throws' saveDailyData_resolves_to_boolean
      [of "(emptyWorld True True)\<lparr>setItemFails := True\<rparr>" "''2025-01-01''" "''Monday''"
          "JNumber 20" "''#E8F5E8''" "Some [(1, savedPhase1)]" "''t1''"]
    by blast
  then have second: "fst (saveDailyData ((emptyWorld True True)\<lparr>setItemFails := True\<rparr>)
          ''2025-01-01'' ''Monday'' (JNumber 20) ''#E8F5E8'' (Some [(1, savedPhase1)]) ''t1'') =
        Inr False"
    by simp
  from first second show ?thesis
    by (rule conjI)
qed

text \<open>
  C2. A day written with a phases map is claimed to be read back with the same phases,
  also when the write falls over to the local store. With \<open>db\<close> initialised and
  Firestore throwing, \<open>saveDailyData\<close> resolves to \<open>true\<close> but the \<open>catch\<close> branch
  calls \<open>saveToLocalStorage\<close> without the phases: the day read back by
  \<open>fetchAllData\<close> has no phases. The branch taken when \<open>db\<close> is not initialised
  passes them on, and there the day is read back as written.
\<close>

theorem fallback_write_drops_phases:
  "saveDailyData (emptyWorld True True) ''2025-01-01'' ''Monday'' (JNumber 20) ''#E8F5E8''
     (Some [(1, savedPhase1)]) ''t1'' =
     (Inr True,
      (emptyWorld True True)
        \<lparr>productivityData :=
           ObjectText [(''2025-01-01'',
             dataEntry ''2025-01-01'' ''Monday'' (JNumber 20) ''#E8F5E8'' None ''t1'')],
         facadeCalls := [SaveDailyData ''2025-01-01'']\<rparr>) \<and>
   fst (fetchAllData (snd (saveDailyData (emptyWorld True True) ''2025-01-01'' ''Monday''
          (JNumber 20) ''#E8F5E8'' (Some [(1, savedPhase1)]) ''t1''))) =
     Inr [dataEntry ''2025-01-01'' ''Monday'' (JNumber 20) ''#E8F5E8'' None ''t1''] \<and>
   fst (fetchAllData (snd (saveDailyData (emptyWorld False False) ''2025-01-01'' ''Monday''
          (JNumber 20) ''#E8F5E8'' (Some [(1, savedPhase1)]) ''t1''))) =
     Inr [dataEntry ''2025-01-01'' ''Monday'' (JNumber 20) ''#E8F5E8''
            (Some [(1, savedPhase1)]) ''t1'']"
  by code_simp

section \<open>Properties of the aggregator and the generate action\<close>

lemma getTodayData_world: "snd (getTodayData w d) = w\<lparr>facadeCalls := FetchAllData # facadeCalls w\<rparr>"
  using fetchAllData_world [of w]
  by (cases "fetchAllData w") (auto simp add: getTodayData_def split: sum.splits option.splits)

lemma getTodayData_resolves: "\<exists>t. fst (getTodayData w d) = Inr t"
  by (cases "fetchAllData w") (auto simp add: getTodayData_def split: sum.splits option.splits)

lemma savePhaseData_remote:
  assumes "db w" and "\<not> firestoreFails w"
  shows "fst (savePhaseData w d wd phaseData now) = Inr True \<and>
         db (snd (savePhaseData w d wd phaseData now)) \<and>
         \<not> firestoreFails (snd (savePhaseData w d wd phaseData now))"
proof -
  obtain r w1 where g: "getTodayData w d = (r, w1)"
    by (cases "getTodayData w d")
  with getTodayData_world [of w d] have w1: "db w1" "\<not> firestoreFails w1"
    using assms by auto
  from g getTodayData_resolves [of w d] obtain t where "r = Inr t"
    by auto
  with g w1 show ?thesis
    by (simp add: savePhaseData_def Let_def saveDailyData_remote)
qed

text \<open>
  What \<open>savePhaseData\<close> itself writes to Firestore is a day whose score is computed
  from the phases stored with it and whose colour is computed from that score; and two
  calls of \<open>savePhaseData\<close> alone accumulate to the score 36 with both phases stored.
\<close>

lemma savePhaseData_remote_record:
  assumes "db w" and "\<not> firestoreFails w"
  shows "\<exists>ps. map_of (consistency (snd (savePhaseData w d wd phaseData now))) d =
           Some (dataEntry d wd (calculateScoreFromPhaseObjects (map snd ps))
                   (getColorForScore (calculateScoreFromPhaseObjects (map snd ps)))
                   (Some ps) now)"
  using assms
  by (auto simp add: savePhaseData_def getTodayData_def fetchAllData_def getDocs_def
      saveDailyData_def setDoc_def Let_def map_of_setProp split: option.splits)

lemma savePhaseData_twice_accumulates:
  "productivityData
     (snd (savePhaseData
        (snd (savePhaseData (emptyWorld False False) ''2025-01-01'' ''Monday'' [phase1] ''t1''))
        ''2025-01-01'' ''Monday'' [phase2] ''t2'')) =
     ObjectText [(''2025-01-01'', dataEntry ''2025-01-01'' ''Monday'' (JNumber 36) ''#65cd68ff''
                    (Some [(1, savedPhase1), (2, savedPhase2)]) ''t2'')]"
  by code_simp

text \<open>
  With Firestore working, every accepted generate action leaves for its date a day without
  phases whose score is that of the submitted phases alone.
\<close>

lemma handleGenerateClick_remote_record:
  assumes "validateAllPhases phaseData" and "db w" and "\<not> firestoreFails w"
  shows "map_of (consistency (handleGenerateClick w phaseData d wd now)) d =
           Some (dataEntry d wd (calculateProductivityScore phaseData)
                   (getColorForScore (calculateProductivityScore phaseData)) None now)"
proof -
  obtain r w1 where s: "savePhaseData w d wd phaseData now = (r, w1)"
    by (cases "savePhaseData w d wd phaseData now")
  with savePhaseData_remote [OF assms(2,3), of d wd phaseData now]
  have r: "r = Inr True" and w1: "db w1" "\<not> firestoreFails w1"
    by simp_all
  show ?thesis
    using assms(1) s r w1
    by (simp add: handleGenerateClick_def Let_def lockSavedPhases_def getTodayData_world
        updateHeatmapColor_def saveDailyData_remote loadHeatmapData_def fetchAllData_def
        getDocs_def map_of_setProp)
qed

text \<open>
  C6. When no submitted phase has a status, \<open>handleGenerateClick\<close> only shows the
  message asking for a status: neither \<open>saveDailyData\<close> nor \<open>fetchAllData\<close> is
  entered, and the Firestore collection and the local item are unchanged.
\<close>

theorem handleGenerateClick_rejects_without_status:
  assumes "\<forall>p \<in> set phaseData. status p = []"
  shows "handleGenerateClick w phaseData d wd now = w\<lparr>shownMessage := Some SelectStatus\<rparr> \<and>
         facadeCalls (handleGenerateClick w phaseData d wd now) = facadeCalls w \<and>
         consistency (handleGenerateClick w phaseData d wd now) = consistency w \<and>
         productivityData (handleGenerateClick w phaseData d wd now) = productivityData w"
proof -
  from assms have "\<not> validateAllPhases phaseData"
    by (simp add: validateAllPhases_def list_ex_iff)
  then show ?thesis
    by (simp add: handleGenerateClick_def)
qed

theorem handleGenerateClick_rejects_without_status_witness:
  "length noStatus = 5 \<and> map status noStatus = [[], [], [], [], []] \<and>
   handleGenerateClick (emptyWorld True False) noStatus ''2025-01-01'' ''Monday'' ''t1'' =
     (emptyWorld True False)\<lparr>shownMessage := Some SelectStatus\<rparr>"
proof -
  have h: "\<forall>p \<in> set noStatus. status p = []"
    by (simp add: noStatus_def)
  show ?thesis
    using h handleGenerateClick_rejects_without_status [OF h]
    by (simp add: noStatus_def)
qed

text \<open>
  C1. The stored score is claimed to be the score of the stored phases after every
  generate action. \<open>savePhaseData\<close> stores phase 1 with its score 20; the call of
  \<open>updateHeatmapColor\<close> that follows writes the day again without phases, in the
  local store as in Firestore. The stored day then has the score 20 and no phases, whose
  score is 0.
\<close>

theorem generate_overwrites_merged_record:
  "productivityData (snd (savePhaseData (emptyWorld False False) ''2025-01-01'' ''Monday''
      [phase1] ''t1'')) =
     ObjectText [(''2025-01-01'', dataEntry ''2025-01-01'' ''Monday'' (JNumber 20) ''#E8F5E8''
                    (Some [(1, savedPhase1)]) ''t1'')] \<and>
   productivityData (handleGenerateClick (emptyWorld False False) [phase1] ''2025-01-01''
      ''Monday'' ''t1'') =
     ObjectText [(''2025-01-01'', dataEntry ''2025-01-01'' ''Monday'' (JNumber 20) ''#E8F5E8''
                    None ''t1'')] \<and>
   consistency (handleGenerateClick (emptyWorld True False) [phase1] ''2025-01-01''
      ''Monday'' ''t1'') =
     [(''2025-01-01'', dataEntry ''2025-01-01'' ''Monday'' (JNumber 20) ''#E8F5E8'' None ''t1'')] \<and>
   calculateScoreFromPhaseObjects
     (storedPhases (dataEntry ''2025-01-01'' ''Monday'' (JNumber 20) ''#E8F5E8'' None ''t1''))
     = JNumber 0"
  by code_simp

text \<open>
  C3. Submitting phase 1 (score 20) and then, in a second generate action on the same
  date, phase 2 (score 16) is claimed to store both phases with the score 36. The first
  action leaves a day without phases, so the second merges into nothing and stores the
  score 16 and no phases, in the local store as in Firestore. When the second submission
  carries both phases the stored score is 36, still without phases.
\<close>

theorem second_submission_replaces_first:
  "productivityData
     (handleGenerateClick
        (handleGenerateClick (emptyWorld False False) [phase1] ''2025-01-01'' ''Monday'' ''t1'')
        [phase2] ''2025-01-01'' ''Monday'' ''t2'') =
     ObjectText [(''2025-01-01'', dataEntry ''2025-01-01'' ''Monday'' (JNumber 16) ''#E8F5E8''
                    None ''t2'')] \<and>
   consistency
     (handleGenerateClick
        (handleGenerateClick (emptyWorld True False) [phase1] ''2025-01-01'' ''Monday'' ''t1'')
        [phase2] ''2025-01-01'' ''Monday'' ''t2'') =
     [(''2025-01-01'', dataEntry ''2025-01-01'' ''Monday'' (JNumber 16) ''#E8F5E8'' None ''t2'')] \<and>
   productivityData
     (handleGenerateClick
        (handleGenerateClick (emptyWorld False False) [phase1] ''2025-01-01'' ''Monday'' ''t1'')
        [phase1, phase2] ''2025-01-01'' ''Monday'' ''t2'') =
     ObjectText [(''2025-01-01'', dataEntry ''2025-01-01'' ''Monday'' (JNumber 36) ''#65cd68ff''
                    None ''t2'')]"
  by code_simp

end
